theory Spec2Isabelle
  imports Main "HOL-Library.Sublist" "HOL-Library.AList"
begin

section \<open>Python strings\<close>

text \<open>
  A Python \<open>str\<close> is modelled as a \<open>string\<close>, a list of characters, and the text is taken to
  be ASCII: \<open>str.upper\<close> maps the letters a..z to A..Z and leaves every other character as it
  is, and the white space removed by \<open>str.strip\<close> is the ASCII white space of Python
  (tab, line feed, vertical tab, form feed, carriage return, the four separators
  0x1C..0x1F and the blank).
  Outside ASCII the model is not Python: \<open>str.strip\<close> also removes the other Unicode
  white space (U+0085, U+00A0 and beyond) and \<open>str.upper\<close> also changes the other cased
  letters, which the model treats as plain characters.
\<close>

definition whitespace :: string where
  "whitespace =
     [CHR 0x09, CHR 0x0A, CHR 0x0B, CHR 0x0C, CHR 0x0D,
      CHR 0x1C, CHR 0x1D, CHR 0x1E, CHR 0x1F, CHR 0x20]"

definition isspace :: "char \<Rightarrow> bool" where
  "isspace c = (c \<in> set whitespace)"

definition upper_char :: "char \<Rightarrow> char" where
  "upper_char c =
     (case map_of (zip ''abcdefghijklmnopqrstuvwxyz'' ''ABCDEFGHIJKLMNOPQRSTUVWXYZ'') c of
        Some u \<Rightarrow> u
      | None \<Rightarrow> c)"

definition upper :: "string \<Rightarrow> string" where
  "upper s = map upper_char s"

definition lstrip :: "string \<Rightarrow> string" where
  "lstrip s = dropWhile isspace s"

definition rstrip :: "string \<Rightarrow> string" where
  "rstrip s = rev (dropWhile isspace (rev s))"

definition strip :: "string \<Rightarrow> string" where
  "strip s = rstrip (lstrip s)"

definition startswith :: "string \<Rightarrow> string \<Rightarrow> bool" where
  "startswith s p = (take (length p) s = p)"

text \<open>\<open>str_in pat s\<close> is Python's \<open>pat in s\<close>: a plain substring search.\<close>

fun str_in :: "string \<Rightarrow> string \<Rightarrow> bool" where
  "str_in pat [] = (pat = [])"
| "str_in pat (c # cs) = (startswith (c # cs) pat \<or> str_in pat cs)"

text \<open>
  \<open>replace_del old s\<close> is \<open>s.replace(old, "")\<close>: the occurrences of \<open>old\<close> are found from
  left to right, without overlap, and removed. (The source only calls it with a
  non-empty \<open>old\<close>; with an empty one and an empty replacement Python returns \<open>s\<close>.)
\<close>

function replace_del :: "string \<Rightarrow> string \<Rightarrow> string" where
  "replace_del old [] = []"
| "replace_del old (c # cs) =
     (if old \<noteq> [] \<and> startswith (c # cs) old
      then replace_del old (drop (length old - 1) cs)
      else c # replace_del old cs)"
  by pat_completeness auto
termination
  by (relation "measure (\<lambda>(old, s). length s)") auto

text \<open>\<open>join sep xs\<close> is \<open>sep.join(xs)\<close>.\<close>

fun join :: "string \<Rightarrow> string list \<Rightarrow> string" where
  "join sep [] = []"
| "join sep [x] = x"
| "join sep (x # y # ys) = x @ sep @ join sep (y # ys)"

definition nl :: string where
  "nl = [CHR 0x0A]"

definition quote :: string where
  "quote = [CHR 0x27]"

text \<open>An f-string renders \<open>None\<close> as the text \<open>None\<close>.\<close>

fun fmt :: "string option \<Rightarrow> string" where
  "fmt None = ''None''"
| "fmt (Some s) = s"

text \<open>The truth value of an optional string: \<open>None\<close> and the empty string are false.\<close>

fun truthy :: "string option \<Rightarrow> bool" where
  "truthy None = False"
| "truthy (Some s) = (s \<noteq> [])"

section \<open>Exceptions\<close>

text \<open>
  Every exception the code raises or receives is a value; each carries the text that
  \<open>str(e)\<close> gives. \<open>Error\<close> stands for any other exception class raised by a collaborator
  (the warehouse connector).
\<close>

datatype exn =
    ValueError string
  | TypeError string
  | IndexError string
  | Error string

fun str_exn :: "exn \<Rightarrow> string" where
  "str_exn (ValueError m) = m"
| "str_exn (TypeError m) = m"
| "str_exn (IndexError m) = m"
| "str_exn (Error m) = m"

section \<open>The SQL safety gate\<close>

definition dangerous_operations :: "string list" where
  "dangerous_operations =
     [''DROP '', ''DELETE '', ''TRUNCATE '', ''INSERT '', ''UPDATE '',
      ''CREATE '', ''ALTER '', ''GRANT '', ''REVOKE '', ''EXEC '',
      ''EXECUTE '', ''--'', ''/*'', ''*/'', ''xp_'', ''sp_'']"

definition dangerous_message :: "string \<Rightarrow> string" where
  "dangerous_message operation =
     ''SQL query contains potentially dangerous operation: '' @ quote @ strip operation @ quote
       @ ''. '' @ ''Only SELECT queries are allowed for safety.''"

definition select_message :: string where
  "select_message = ''Only SELECT queries are allowed. Query must start with SELECT.''"

text \<open>The \<open>for operation in dangerous_operations\<close> loop: the first operation found raises.\<close>

fun scan_operations :: "string list \<Rightarrow> string \<Rightarrow> exn option" where
  "scan_operations [] sql_upper = None"
| "scan_operations (operation # rest) sql_upper =
     (if str_in operation sql_upper
      then Some (ValueError (dangerous_message operation))
      else scan_operations rest sql_upper)"

definition validate_sql_query :: "string \<Rightarrow> exn + bool" where
  "validate_sql_query sql_query =
     (let sql_upper = upper sql_query in
      case scan_operations dangerous_operations sql_upper of
        Some e \<Rightarrow> Inl e
      | None \<Rightarrow>
          if \<not> startswith (strip sql_upper) ''SELECT''
          then Inl (ValueError select_message)
          else Inr True)"

section \<open>Stripping markdown fences\<close>

text \<open>
  Both provider adapters apply
  \<open>sql_query.replace("```sql", "").replace("```", "").strip()\<close> to the response text,
  which they have trimmed before.
\<close>

definition strip_fences :: "string \<Rightarrow> string" where
  "strip_fences s = strip (replace_del ''```'' (replace_del ''```sql'' s))"

definition clean_response :: "string \<Rightarrow> string" where
  "clean_response content = strip_fences (strip content)"

section \<open>The assistant and its collaborators\<close>

text \<open>
  The attributes of a \<open>DataAssistant\<close>. The settings come from \<open>os.getenv\<close>, which gives
  \<open>None\<close> for a variable that is not set. The provider attributes exist only for the
  provider that was initialised; an attribute that was never assigned is \<open>None\<close> here.
  \<open>table_schema\<close> is the cache \<open>_table_schema\<close>.
\<close>

record assistant =
  llm_provider :: string
  server_hostname :: "string option"
  http_path :: "string option"
  access_token :: "string option"
  catalog_name :: "string option"
  schema_name :: "string option"
  table_name :: "string option"
  openai_api_key :: "string option"
  openai_model :: "string option"
  gemini_api_key :: "string option"
  gemini_model :: "string option"
  table_schema :: "string option"

text \<open>
  What a cursor holds after \<open>cursor.execute\<close>: the column names of its \<open>description\<close>
  (\<open>None\<close> when the statement returned no result set) and the rows of \<open>fetchall\<close>, each
  a list of cells, already rendered as text.
\<close>

record cursor =
  description :: "string list option"
  rows :: "string list list"

text \<open>
  The warehouse is a parameter of the model. \<open>connect\<close> is \<open>sql.connect\<close> with the host,
  path and token: it gives the exception raised, or \<open>None\<close> when the connection opens.
  \<open>execute\<close> is \<open>cursor.execute\<close>: from the statements sent before and the statement sent
  now it gives the exception raised or the cursor's contents.
\<close>

record databricks =
  connect :: "string \<Rightarrow> string \<Rightarrow> string \<Rightarrow> exn option"
  execute :: "string list \<Rightarrow> string \<Rightarrow> exn + cursor"

text \<open>
  The state threaded through the methods: the assistant and the log of the statements
  sent to the warehouse so far, oldest first.
\<close>

type_synonym state = "assistant \<times> string list"

text \<open>
  The two provider SDKs are parameters as well. \<open>chat_completions_create\<close> takes the model
  name, the system message and the user message, and gives the content of the first
  choice, or the class and text of the exception raised inside the \<open>try\<close> block
  (\<open>OtherError\<close> for a class that none of the first three handlers catches).
  \<open>generate_content\<close> takes the model name and the prompt and gives the response text, or
  the text of the exception raised.
\<close>

datatype openai_error =
    AuthenticationError string
  | RateLimitError string
  | APIError string
  | OtherError string

record llm =
  chat_completions_create :: "string \<Rightarrow> string \<Rightarrow> string \<Rightarrow> openai_error + string"
  generate_content :: "string \<Rightarrow> string \<Rightarrow> string + string"

section \<open>Construction\<close>

text \<open>
  The calls into the provider SDKs that construction makes, in order. The environment
  \<open>env\<close> is \<open>os.environ\<close> after \<open>load_dotenv()\<close>.
\<close>

datatype sdk_call =
    Set_openai_api_key string
  | Genai_configure string
  | Genai_GenerativeModel string

definition getenv :: "(string \<rightharpoonup> string) \<Rightarrow> string \<Rightarrow> string \<Rightarrow> string" where
  "getenv env name dflt = (case env name of Some v \<Rightarrow> v | None \<Rightarrow> dflt)"

text \<open>\<open>llm_provider or os.getenv('LLM_PROVIDER', 'openai')\<close>\<close>

definition select_provider :: "string option \<Rightarrow> (string \<rightharpoonup> string) \<Rightarrow> string" where
  "select_provider arg env =
     (if truthy arg then fmt arg else getenv env ''LLM_PROVIDER'' ''openai'')"

definition initialize_llm ::
  "(string \<rightharpoonup> string) \<Rightarrow> assistant \<Rightarrow> (exn + assistant) \<times> sdk_call list" where
  "initialize_llm env a =
     (if llm_provider a = ''openai'' then
        (let a1 = a\<lparr>openai_api_key := env ''OPENAI_API_KEY'',
                    openai_model := Some (getenv env ''OPENAI_MODEL'' ''gpt-4'')\<rparr> in
         if \<not> truthy (openai_api_key a1)
         then (Inl (ValueError ''OPENAI_API_KEY not found in environment variables''), [])
         else (Inr a1, [Set_openai_api_key (fmt (openai_api_key a1))]))
      else if llm_provider a = ''gemini'' then
        (let a1 = a\<lparr>gemini_api_key := env ''GEMINI_API_KEY'',
                    gemini_model := Some (getenv env ''GEMINI_MODEL'' ''gemini-pro'')\<rparr> in
         if \<not> truthy (gemini_api_key a1)
         then (Inl (ValueError ''GEMINI_API_KEY not found in environment variables''), [])
         else (Inr a1, [Genai_configure (fmt (gemini_api_key a1)),
                        Genai_GenerativeModel (fmt (gemini_model a1))]))
      else (Inl (ValueError (''Unsupported LLM provider: '' @ llm_provider a)), []))"

text \<open>\<open>DataAssistant.__init__\<close>\<close>

definition init ::
  "string option \<Rightarrow> (string \<rightharpoonup> string) \<Rightarrow> (exn + assistant) \<times> sdk_call list" where
  "init arg env =
     (let a = \<lparr>llm_provider = select_provider arg env,
                server_hostname = env ''DATABRICKS_SERVER_HOSTNAME'',
                http_path = env ''DATABRICKS_HTTP_PATH'',
                access_token = env ''DATABRICKS_ACCESS_TOKEN'',
                catalog_name = env ''CATALOG_NAME'',
                schema_name = env ''SCHEMA_NAME'',
                table_name = env ''TABLE_NAME'',
                openai_api_key = None, openai_model = None,
                gemini_api_key = None, gemini_model = None,
                table_schema = None\<rparr> in
      case initialize_llm env a of
        (Inl e, calls) \<Rightarrow> (Inl e, calls)
      | (Inr a1, calls) \<Rightarrow> (Inr (a1\<lparr>table_schema := None\<rparr>), calls))"

section \<open>Schema describer and prompt builder\<close>

definition get_databricks_connection :: "databricks \<Rightarrow> assistant \<Rightarrow> exn + unit" where
  "get_databricks_connection db a =
     (if \<not> (truthy (server_hostname a) \<and> truthy (http_path a) \<and> truthy (access_token a))
      then Inl (ValueError ''Databricks configuration incomplete. Check environment variables.'')
      else case connect db (fmt (server_hostname a)) (fmt (http_path a)) (fmt (access_token a)) of
             Some e \<Rightarrow> Inl e
           | None \<Rightarrow> Inr ())"

definition full_table_name :: "assistant \<Rightarrow> string" where
  "full_table_name a =
     fmt (catalog_name a) @ ''.'' @ fmt (schema_name a) @ ''.'' @ fmt (table_name a)"

text \<open>
  The loop over the rows of \<open>DESCRIBE TABLE\<close>: \<open>col[0]\<close> and \<open>col[1]\<close> raise an
  \<open>IndexError\<close> on a row of fewer than two cells.
\<close>

fun schema_info :: "string list list \<Rightarrow> exn + string list" where
  "schema_info [] = Inr []"
| "schema_info ((col_name # col_type # others) # columns) =
     (case schema_info columns of
        Inl e \<Rightarrow> Inl e
      | Inr lines \<Rightarrow> Inr ((''  - '' @ col_name @ '': '' @ col_type) # lines))"
| "schema_info (col # columns) = Inl (IndexError ''tuple index out of range'')"

definition describe_table :: "databricks \<Rightarrow> state \<Rightarrow> (exn + string) \<times> state" where
  "describe_table db st =
     (case st of (a, sent) \<Rightarrow>
        case get_databricks_connection db a of
          Inl e \<Rightarrow> (Inl e, (a, sent))
        | Inr u \<Rightarrow>
            (let statement = ''DESCRIBE TABLE '' @ full_table_name a;
                 sent1 = sent @ [statement] in
             case execute db sent statement of
               Inl e \<Rightarrow> (Inl e, (a, sent1))
             | Inr cur \<Rightarrow>
                 (case schema_info (rows cur) of
                    Inl e \<Rightarrow> (Inl e, (a, sent1))
                  | Inr lines \<Rightarrow>
                      (let schema = join nl lines in
                       (Inr schema, (a\<lparr>table_schema := Some schema\<rparr>, sent1))))))"

text \<open>
  \<open>get_table_schema\<close>: the test \<open>if self._table_schema:\<close> is the truth value of the cache,
  then the body that asks the warehouse.
\<close>

definition get_table_schema :: "databricks \<Rightarrow> state \<Rightarrow> (exn + string) \<times> state" where
  "get_table_schema db st =
     (if truthy (table_schema (fst st))
      then (Inr (fmt (table_schema (fst st))), st)
      else describe_table db st)"

definition prompt_text :: "string \<Rightarrow> string \<Rightarrow> string \<Rightarrow> string" where
  "prompt_text full_name schema question =
     ''You are a SQL expert. Convert the following natural language query into a SQL query for a Databricks Unity Catalog table.'' @ nl
     @ nl
     @ ''Table: '' @ full_name @ nl
     @ nl
     @ ''Table Schema:'' @ nl
     @ schema @ nl
     @ nl
     @ ''Natural Language Query: '' @ question @ nl
     @ nl
     @ ''Important Guidelines:'' @ nl
     @ ''1. Generate ONLY the SQL query without any explanation or markdown formatting'' @ nl
     @ ''2. Use the exact table name: '' @ full_name @ nl
     @ ''3. Use proper SQL syntax compatible with Databricks SQL'' @ nl
     @ ''4. Include appropriate WHERE, GROUP BY, ORDER BY, and LIMIT clauses as needed'' @ nl
     @ ''5. Make sure column names match exactly as shown in the schema'' @ nl
     @ ''6. Return only the SQL query, nothing else'' @ nl
     @ nl
     @ ''SQL Query:''"

definition generate_sql_prompt ::
  "databricks \<Rightarrow> state \<Rightarrow> string \<Rightarrow> (exn + string) \<times> state" where
  "generate_sql_prompt db st natural_language_query =
     (case get_table_schema db st of
        (Inl e, st1) \<Rightarrow> (Inl e, st1)
      | (Inr schema, st1) \<Rightarrow>
          (Inr (prompt_text (full_table_name (fst st1)) schema natural_language_query), st1))"

section \<open>Provider adapters\<close>

definition system_message :: string where
  "system_message = ''You are a SQL expert that converts natural language to SQL queries.''"

definition missing_attribute :: "string \<Rightarrow> string" where
  "missing_attribute name =
     quote @ ''DataAssistant'' @ quote @ '' object has no attribute '' @ quote @ name @ quote"

definition generate_sql_with_openai :: "llm \<Rightarrow> assistant \<Rightarrow> string \<Rightarrow> exn + string" where
  "generate_sql_with_openai ai a prompt =
     (case openai_model a of
        None \<Rightarrow>
          Inl (ValueError (''Unexpected error calling OpenAI API: ''
                 @ missing_attribute ''openai_model''))
      | Some model \<Rightarrow>
          (case chat_completions_create ai model system_message prompt of
             Inr content \<Rightarrow> Inr (clean_response content)
           | Inl (AuthenticationError m) \<Rightarrow>
               Inl (ValueError (''OpenAI authentication failed. Please check your API key: '' @ m))
           | Inl (RateLimitError m) \<Rightarrow>
               Inl (ValueError (''OpenAI rate limit exceeded. Please try again later: '' @ m))
           | Inl (APIError m) \<Rightarrow> Inl (ValueError (''OpenAI API error: '' @ m))
           | Inl (OtherError m) \<Rightarrow>
               Inl (ValueError (''Unexpected error calling OpenAI API: '' @ m))))"

definition generate_sql_with_gemini :: "llm \<Rightarrow> assistant \<Rightarrow> string \<Rightarrow> exn + string" where
  "generate_sql_with_gemini ai a prompt =
     (case (case gemini_model a of
              None \<Rightarrow> Inl (missing_attribute ''gemini_client'')
            | Some model \<Rightarrow> generate_content ai model prompt) of
        Inr content \<Rightarrow> Inr (clean_response content)
      | Inl m \<Rightarrow>
          Inl (ValueError (''Gemini API error: '' @ m
                 @ ''. Please check your API key and rate limits.'')))"

definition natural_language_to_sql ::
  "databricks \<Rightarrow> llm \<Rightarrow> state \<Rightarrow> string \<Rightarrow> (exn + string) \<times> state" where
  "natural_language_to_sql db ai st natural_language_query =
     (case generate_sql_prompt db st natural_language_query of
        (Inl e, st1) \<Rightarrow> (Inl e, st1)
      | (Inr prompt, st1) \<Rightarrow>
          (if llm_provider (fst st1) = ''openai''
           then (generate_sql_with_openai ai (fst st1) prompt, st1)
           else if llm_provider (fst st1) = ''gemini''
           then (generate_sql_with_gemini ai (fst st1) prompt, st1)
           else (Inl (ValueError (''Unsupported LLM provider: '' @ llm_provider (fst st1))), st1)))"

section \<open>Query executor and orchestrator\<close>

text \<open>
  A Python \<open>dict\<close> is an association list in insertion order; storing under a key that
  is present replaces its value in place (\<open>AList.update\<close>).
\<close>

definition dict :: "(string \<times> 'v) list \<Rightarrow> (string \<times> 'v) list" where
  "dict kvs = fold (\<lambda>(k, v) d. AList.update k v d) kvs []"

definition execute_sql ::
  "databricks \<Rightarrow> state \<Rightarrow> string \<Rightarrow> (exn + (string \<times> string) list list) \<times> state" where
  "execute_sql db st sql_query =
     (case st of (a, sent) \<Rightarrow>
        case validate_sql_query sql_query of
          Inl e \<Rightarrow> (Inl e, (a, sent))
        | Inr ok \<Rightarrow>
            (case get_databricks_connection db a of
               Inl e \<Rightarrow> (Inl e, (a, sent))
             | Inr u \<Rightarrow>
                 (let sent1 = sent @ [sql_query] in
                  case execute db sent sql_query of
                    Inl e \<Rightarrow> (Inl e, (a, sent1))
                  | Inr cur \<Rightarrow>
                      (case description cur of
                         None \<Rightarrow>
                           (Inl (TypeError (quote @ ''NoneType'' @ quote
                                   @ '' object is not iterable'')), (a, sent1))
                       | Some columns \<Rightarrow>
                           (Inr (map (\<lambda>row. dict (zip columns row)) (rows cur)),
                            (a, sent1))))))"

text \<open>The values stored in the result envelope.\<close>

datatype pyval =
    Str string
  | Rows "(string \<times> string) list list"

definition query ::
  "databricks \<Rightarrow> llm \<Rightarrow> state \<Rightarrow> string \<Rightarrow> bool \<Rightarrow> (exn + (string \<times> pyval) list) \<times> state" where
  "query db ai st natural_language_query exec =
     (case natural_language_to_sql db ai st natural_language_query of
        (Inl e, st1) \<Rightarrow> (Inl e, st1)
      | (Inr sql_query, st1) \<Rightarrow>
          (let result = [(''natural_language_query'', Str natural_language_query),
                         (''sql_query'', Str sql_query)] in
           if exec then
             (case execute_sql db st1 sql_query of
                (Inr results, st2) \<Rightarrow>
                  (Inr (AList.update ''status'' (Str ''success'')
                         (AList.update ''results'' (Rows results) result)), st2)
              | (Inl e, st2) \<Rightarrow>
                  (Inr (AList.update ''error'' (Str (str_exn e))
                         (AList.update ''status'' (Str ''error'') result)), st2))
           else (Inr result, st1)))"

section \<open>Concrete inputs\<close>

text \<open>
  The environment of the repository's tests, the assistant constructed from it, and
  four collaborators: a warehouse whose every statement returns no column and no row,
  a warehouse that describes a table of one column, a warehouse whose
  \<open>cursor.execute\<close> raises an exception with an empty text, and a provider that always
  answers the given text.
\<close>

definition test_env :: "string \<rightharpoonup> string" where
  "test_env =
     map_of [(''LLM_PROVIDER'', ''openai''),
             (''OPENAI_API_KEY'', ''test-key''),
             (''DATABRICKS_SERVER_HOSTNAME'', ''test.databricks.com''),
             (''DATABRICKS_HTTP_PATH'', ''/sql/1.0/warehouses/test''),
             (''DATABRICKS_ACCESS_TOKEN'', ''test-token''),
             (''CATALOG_NAME'', ''test_catalog''),
             (''SCHEMA_NAME'', ''test_schema''),
             (''TABLE_NAME'', ''test_table'')]"

definition test_assistant :: assistant where
  "test_assistant =
     \<lparr>llm_provider = ''openai'',
      server_hostname = Some ''test.databricks.com'',
      http_path = Some ''/sql/1.0/warehouses/test'',
      access_token = Some ''test-token'',
      catalog_name = Some ''test_catalog'',
      schema_name = Some ''test_schema'',
      table_name = Some ''test_table'',
      openai_api_key = Some ''test-key'', openai_model = Some ''gpt-4'',
      gemini_api_key = None, gemini_model = None,
      table_schema = None\<rparr>"

text \<open>The same assistant once a one-column schema is in its cache.\<close>

definition cached_assistant :: assistant where
  "cached_assistant = test_assistant\<lparr>table_schema := Some ''  - col1: string''\<rparr>"

definition empty_warehouse :: databricks where
  "empty_warehouse =
     \<lparr>connect = (\<lambda>host path token. None),
      execute = (\<lambda>sent statement. Inr \<lparr>description = Some [], rows = []\<rparr>)\<rparr>"

definition one_column_warehouse :: databricks where
  "one_column_warehouse =
     \<lparr>connect = (\<lambda>host path token. None),
      execute = (\<lambda>sent statement.
         Inr \<lparr>description = Some [''col_name'', ''data_type'', ''comment''],
              rows = [[''col1'', ''string'', []]]\<rparr>)\<rparr>"

definition silent_failure_warehouse :: databricks where
  "silent_failure_warehouse =
     \<lparr>connect = (\<lambda>host path token. None),
      execute = (\<lambda>sent statement. Inl (Error []))\<rparr>"

definition answering :: "string \<Rightarrow> llm" where
  "answering content =
     \<lparr>chat_completions_create = (\<lambda>model system user. Inr content),
      generate_content = (\<lambda>model prompt. Inr content)\<rparr>"

section \<open>Facts about the string operations\<close>

lemma isspace_upper_char: "isspace (upper_char c) = isspace c"
  by (simp add: upper_char_def isspace_def whitespace_def)

lemma upper_char_idem: "upper_char (upper_char d) = upper_char d"
proof (cases "d \<in> set ''abcdefghijklmnopqrstuvwxyz''")
  case True
  then show ?thesis by (auto simp: upper_char_def)
next
  case False
  then show ?thesis by (simp add: upper_char_def)
qed

lemma startswith_prefix: "startswith s p \<longleftrightarrow> prefix p s"
  unfolding startswith_def prefix_def
  by (metis append_eq_conv_conj)

lemma str_in_sublist: "str_in p s \<longleftrightarrow> sublist p s"
  by (induction s) (auto simp: startswith_prefix sublist_Cons_right)

lemma upper_lstrip: "upper (lstrip s) = lstrip (upper s)"
  by (simp add: upper_def lstrip_def dropWhile_map comp_def isspace_upper_char)

lemma rstrip_prefix: "prefix (rstrip s) s"
  unfolding rstrip_def
  by (metis prefix_def rev_append rev_rev_ident takeWhile_dropWhile_id)

lemma lstrip_suffix: "suffix (lstrip s) s"
  unfolding lstrip_def by (rule suffix_dropWhile)

lemma strip_sublist: "sublist (strip s) s"
  unfolding strip_def
  by (meson lstrip_suffix rstrip_prefix prefix_imp_sublist suffix_imp_sublist
      sublist_order.order_trans)

lemma str_in_strip: "str_in p (strip s) \<Longrightarrow> str_in p s"
  using strip_sublist[of s] by (auto simp: str_in_sublist intro: sublist_order.order_trans)

text \<open>
  Trimming on the right cannot remove a prefix that ends in a character that is not
  white space.
\<close>

lemma startswith_rstrip:
  assumes "p \<noteq> []" "\<not> isspace (last p)"
  shows "startswith (rstrip s) p \<longleftrightarrow> startswith s p"
proof
  assume "startswith (rstrip s) p"
  then show "startswith s p"
    using rstrip_prefix[of s] by (auto simp: startswith_prefix)
next
  assume "startswith s p"
  then obtain r where s: "s = p @ r" by (auto simp: startswith_prefix prefix_def)
  have "dropWhile isspace (rev p) = rev p"
    using assms by (cases "rev p") (auto simp: last_rev hd_rev)
  then show "startswith (rstrip s) p"
    by (simp add: s rstrip_def startswith_prefix dropWhile_append)
qed

lemma startswith_strip_select:
  "startswith (strip (upper s)) ''SELECT'' \<longleftrightarrow> startswith (upper (lstrip s)) ''SELECT''"
  by (simp add: strip_def startswith_rstrip upper_lstrip isspace_def whitespace_def)

lemma rstrip_idem: "rstrip (rstrip s) = rstrip s"
  unfolding rstrip_def by (simp add: dropWhile_idem)

lemma lstrip_rstrip_lstrip: "lstrip (rstrip (lstrip s)) = rstrip (lstrip s)"
proof (cases "rstrip (lstrip s) = []")
  case True
  then show ?thesis by (simp add: lstrip_def)
next
  case False
  then obtain x xs where r: "rstrip (lstrip s) = x # xs"
    by (cases "rstrip (lstrip s)") auto
  with rstrip_prefix[of "lstrip s"] obtain ys where t: "lstrip s = x # ys"
    by (auto simp: prefix_def)
  have "\<not> isspace x"
    by (metis hd_dropWhile list.sel(1) list.distinct(1) lstrip_def t)
  then have "lstrip (x # xs) = x # xs" by (simp add: lstrip_def)
  then show ?thesis by (simp only: r)
qed

lemma strip_strip: "strip (strip s) = strip s"
  by (simp add: strip_def lstrip_rstrip_lstrip rstrip_idem)

lemma replace_del_absent: "\<not> str_in old s \<Longrightarrow> replace_del old s = s"
  by (induction old s rule: replace_del.induct) auto

text \<open>
  Removing the bare fences leaves none behind: what is kept of a run of backquotes is
  shorter than three, and the characters between two runs are kept.
\<close>

lemma fence_free: "\<not> str_in ''```'' (replace_del ''```'' s)"
proof (induction "''```''" s rule: replace_del.induct)
  case 1
  show ?case by simp
next
  case (2 c cs)
  show ?case
  proof (cases "startswith (c # cs) ''```''")
    case True
    with 2 show ?thesis by simp
  next
    case False
    with 2 have ih: "\<not> str_in ''```'' (replace_del ''```'' cs)" by simp
    have "\<not> startswith (c # replace_del ''```'' cs) ''```''"
      using False
      by (cases cs; cases "tl cs"; cases "tl (tl cs)")
         (auto simp: startswith_def split: if_splits)
    with ih False show ?thesis by simp
  qed
qed

lemma strip_fences_fence_free: "\<not> str_in ''```'' (strip_fences s)"
  unfolding strip_fences_def using fence_free str_in_strip by blast

lemma strip_fences_idem: "strip_fences (strip_fences s) = strip_fences s"
proof -
  have a: "\<not> str_in ''```'' (strip_fences s)"
    by (rule strip_fences_fence_free)
  have "sublist ''```'' ''```sql''"
    by (simp add: sublist_def) (metis append_Nil)
  then have b: "\<not> str_in ''```sql'' (strip_fences s)"
    using a by (auto simp: str_in_sublist intro: sublist_order.order_trans)
  have "strip_fences (strip_fences s) = strip (strip_fences s)"
    by (simp add: strip_fences_def[of "strip_fences s"] replace_del_absent a b)
  also have "\<dots> = strip_fences s"
    by (simp add: strip_fences_def strip_strip)
  finally show ?thesis .
qed

lemma clean_response_idem: "clean_response (clean_response s) = clean_response s"
proof -
  have "strip (strip_fences x) = strip_fences x" for x
    by (simp add: strip_fences_def strip_strip)
  then show ?thesis
    by (simp add: clean_response_def strip_fences_idem)
qed

lemmas string_eval =
  upper_def upper_char_def startswith_def strip_def lstrip_def rstrip_def
  isspace_def whitespace_def quote_def nl_def

section \<open>The safety gate\<close>

lemma scan_operations_None:
  "scan_operations ops u = None \<longleftrightarrow> \<not> list_ex (\<lambda>operation. str_in operation u) ops"
  by (induction ops) auto

lemma scan_operations_find:
  "scan_operations ops u =
     map_option (\<lambda>operation. ValueError (dangerous_message operation))
       (find (\<lambda>operation. str_in operation u) ops)"
  by (induction ops) auto

text \<open>
  What the gate does, in the words of the specification: it raises for the first
  listed operation that occurs in the upper-cased text, before it looks at the prefix;
  otherwise it raises unless the text, trimmed on the left and upper-cased, starts with
  \<open>SELECT\<close>; and otherwise it returns \<open>True\<close>.
\<close>

lemma validate_sql_query_cases:
  "validate_sql_query s =
     (case find (\<lambda>operation. str_in operation (upper s)) dangerous_operations of
        Some operation \<Rightarrow> Inl (ValueError (dangerous_message operation))
      | None \<Rightarrow>
          if startswith (upper (lstrip s)) ''SELECT'' then Inr True
          else Inl (ValueError select_message))"
  by (simp add: validate_sql_query_def scan_operations_find startswith_strip_select
      split: option.splits)

text \<open>
  So the gate raises whenever a listed operation occurs in the upper-cased text as it
  is written in the list, naming the first such operation, and whenever the prefix is
  not \<open>SELECT\<close>.
\<close>

lemma validate_sql_query_rejects:
  assumes "list_ex (\<lambda>operation. str_in operation (upper s)) dangerous_operations
           \<or> \<not> startswith (upper (lstrip s)) ''SELECT''"
  shows "\<exists>m. validate_sql_query s = Inl (ValueError m)"
  using assms
  by (auto simp: validate_sql_query_cases find_None_iff list_ex_iff split: option.splits)

lemma validate_sql_query_first_match:
  assumes "find (\<lambda>operation. str_in operation (upper s)) dangerous_operations = Some operation"
  shows "validate_sql_query s = Inl (ValueError (dangerous_message operation))"
  using assms by (simp add: validate_sql_query_cases)

text \<open>An upper-cased text contains no lower-case letter, so it contains no pattern that has one.\<close>

lemma str_in_upper_lowercase:
  assumes "upper_char c \<noteq> c" "c \<in> set p"
  shows "\<not> str_in p (upper s)"
proof
  assume "str_in p (upper s)"
  then have "set p \<subseteq> set (upper s)"
    by (auto simp: str_in_sublist dest: set_mono_sublist)
  then obtain d where "c = upper_char d"
    using assms(2) by (auto simp: upper_def)
  then show False
    using assms(1) by (simp add: upper_char_idem)
qed

lemma listed_lowercase_never_found:
  "\<not> str_in ''xp_'' (upper s)" "\<not> str_in ''sp_'' (upper s)"
  by (rule str_in_upper_lowercase [of "CHR ''p''"]; simp add: upper_char_def)+




text \<open>
  \<^bold>\<open>C1.\<close> The gate is meant to reject every text that contains a listed operation, in
  any letter case. The two listed operations \<open>xp_\<close> and \<open>sp_\<close> are written in lower
  case and are searched in the upper-cased text, where they cannot occur: a \<open>SELECT\<close>
  that calls \<open>xp_cmdshell\<close> contains the listed operation \<open>xp_\<close> and passes the gate.
\<close>

theorem validate_accepts_listed_xp:
  "str_in ''xp_'' ''SELECT xp_cmdshell FROM t''
   \<and> validate_sql_query ''SELECT xp_cmdshell FROM t'' = Inr True"
  by (simp add: validate_sql_query_def dangerous_operations_def string_eval)

text \<open>
  \<^bold>\<open>C2.\<close> A text that starts with \<open>SELECT\<close> in any letter case, after trimming leading
  white space, and whose upper-cased form contains none of the listed operations,
  passes the gate. The gate returns no text of its own: \<open>execute_sql\<close> leaves the
  assistant as it is and, when the connection opens, sends exactly the text it was
  given, so that validating what was sent is validating the same text again.
\<close>

theorem validate_accepts_select_unchanged:
  assumes "startswith (upper (lstrip s)) ''SELECT''"
    and "\<not> list_ex (\<lambda>operation. str_in operation (upper s)) dangerous_operations"
  shows "validate_sql_query s = Inr True
         \<and> snd (execute_sql db (a, sent) s) =
             (a, if get_databricks_connection db a = Inr () then sent @ [s] else sent)"
proof -
  have "find (\<lambda>operation. str_in operation (upper s)) dangerous_operations = None"
    using assms(2) by (simp add: find_None_iff list_ex_iff)
  then have v: "validate_sql_query s = Inr True"
    using assms(1) by (simp add: validate_sql_query_cases)
  then show ?thesis
    by (auto simp: execute_sql_def Let_def split: sum.splits option.splits)
qed

theorem validate_accepts_select_unchanged_witness:
  "startswith (upper (lstrip '' select * FROM t LIMIT 10'')) ''SELECT''
   \<and> \<not> list_ex (\<lambda>operation. str_in operation (upper '' select * FROM t LIMIT 10''))
         dangerous_operations
   \<and> validate_sql_query '' select * FROM t LIMIT 10'' = Inr True
   \<and> snd (execute_sql empty_warehouse (test_assistant, []) '' select * FROM t LIMIT 10'') =
       (test_assistant, ['' select * FROM t LIMIT 10''])"
proof -
  have h1: "startswith (upper (lstrip '' select * FROM t LIMIT 10'')) ''SELECT''"
    by (simp add: string_eval)
  have h2: "\<not> list_ex (\<lambda>operation. str_in operation (upper '' select * FROM t LIMIT 10''))
              dangerous_operations"
    by (simp add: dangerous_operations_def string_eval)
  have c: "get_databricks_connection empty_warehouse test_assistant = Inr ()"
    by (simp add: get_databricks_connection_def empty_warehouse_def test_assistant_def)
  show ?thesis
    using h1 h2 c
      validate_accepts_select_unchanged [OF h1 h2, of empty_warehouse test_assistant "[]"]
    by simp
qed

section \<open>Fence stripping\<close>

text \<open>
  \<^bold>\<open>C7.\<close> Stripping the fences a second time changes nothing, for the fence stripping
  alone and for the whole treatment of a response (trim, strip the fences), and the
  fenced \<open>SELECT 1\<close> strips to \<open>SELECT 1\<close>.
\<close>

theorem strip_fences_idempotent:
  "strip_fences (strip_fences s) = strip_fences s
   \<and> clean_response (clean_response s) = clean_response s
   \<and> strip_fences ''```sql\<newline>SELECT 1\<newline>```'' = ''SELECT 1''"
proof -
  have "strip_fences ''```sql\<newline>SELECT 1\<newline>```'' = ''SELECT 1''"
    by (simp add: strip_fences_def string_eval)
  then show ?thesis
    by (simp add: strip_fences_idem clean_response_idem)
qed

section \<open>Construction\<close>

text \<open>
  \<^bold>\<open>C8.\<close> When the selected provider is \<open>openai\<close> and \<open>OPENAI_API_KEY\<close> is not set (or
  empty), and when it is \<open>gemini\<close> and \<open>GEMINI_API_KEY\<close> is not set (or empty),
  construction raises the \<open>ValueError\<close> for the missing key; when the selected provider
  is neither, it raises a \<open>ValueError\<close> whose text ends with the selected value. In all
  three cases no call into a provider SDK has been made, and construction never
  touches the warehouse.
\<close>

theorem init_fails_without_credential:
  "(select_provider arg env = ''openai'' \<and> \<not> truthy (env ''OPENAI_API_KEY'') \<longrightarrow>
      init arg env =
        (Inl (ValueError ''OPENAI_API_KEY not found in environment variables''), []))
   \<and> (select_provider arg env = ''gemini'' \<and> \<not> truthy (env ''GEMINI_API_KEY'') \<longrightarrow>
      init arg env =
        (Inl (ValueError ''GEMINI_API_KEY not found in environment variables''), []))
   \<and> (select_provider arg env \<noteq> ''openai'' \<and> select_provider arg env \<noteq> ''gemini'' \<longrightarrow>
      init arg env =
        (Inl (ValueError (''Unsupported LLM provider: '' @ select_provider arg env)), []))"
  by (simp add: init_def initialize_llm_def)

theorem init_fails_without_credential_witness:
  "select_provider (Some ''openai'') Map.empty = ''openai''
   \<and> \<not> truthy (Map.empty ''OPENAI_API_KEY'')
   \<and> init (Some ''openai'') Map.empty =
       (Inl (ValueError ''OPENAI_API_KEY not found in environment variables''), [])
   \<and> select_provider None [''LLM_PROVIDER'' \<mapsto> ''gemini''] = ''gemini''
   \<and> \<not> truthy ([''LLM_PROVIDER'' \<mapsto> ''gemini''] ''GEMINI_API_KEY'')
   \<and> init None [''LLM_PROVIDER'' \<mapsto> ''gemini''] =
       (Inl (ValueError ''GEMINI_API_KEY not found in environment variables''), [])
   \<and> select_provider (Some ''unsupported'') test_env \<noteq> ''openai''
   \<and> select_provider (Some ''unsupported'') test_env \<noteq> ''gemini''
   \<and> init (Some ''unsupported'') test_env =
       (Inl (ValueError ''Unsupported LLM provider: unsupported''), [])"
proof -
  have a: "select_provider (Some ''openai'') Map.empty = ''openai''
           \<and> \<not> truthy (Map.empty ''OPENAI_API_KEY'')"
    by (simp add: select_provider_def)
  have b: "select_provider None [''LLM_PROVIDER'' \<mapsto> ''gemini''] = ''gemini''
           \<and> \<not> truthy ([''LLM_PROVIDER'' \<mapsto> ''gemini''] ''GEMINI_API_KEY'')"
    by (simp add: select_provider_def getenv_def)
  have c: "select_provider (Some ''unsupported'') test_env = ''unsupported''"
    by (simp add: select_provider_def)
  show ?thesis
    using a b c
      init_fails_without_credential [of "Some ''openai''" Map.empty]
      init_fails_without_credential [of None "[''LLM_PROVIDER'' \<mapsto> ''gemini'']"]
      init_fails_without_credential [of "Some ''unsupported''" test_env]
    by simp
qed

text \<open>
  \<^bold>\<open>C10.\<close> Constructed without a provider argument in an environment that has no
  \<open>LLM_PROVIDER\<close>, the assistant selects \<open>openai\<close>; construction then succeeds, handing
  the key to the OpenAI SDK, exactly when \<open>OPENAI_API_KEY\<close> is set and not empty, and
  raises the \<open>ValueError\<close> for that key otherwise, whatever else the environment holds.
\<close>

theorem init_defaults_to_openai:
  assumes "env ''LLM_PROVIDER'' = None"
  shows "select_provider None env = ''openai''
         \<and> (if truthy (env ''OPENAI_API_KEY'')
            then \<exists>a. init None env =
                       (Inr a, [Set_openai_api_key (fmt (env ''OPENAI_API_KEY''))])
                     \<and> llm_provider a = ''openai''
                     \<and> openai_api_key a = env ''OPENAI_API_KEY''
            else init None env =
                   (Inl (ValueError ''OPENAI_API_KEY not found in environment variables''), []))"
  using assms by (simp add: init_def initialize_llm_def select_provider_def getenv_def)

theorem init_defaults_to_openai_witness:
  "[''OPENAI_API_KEY'' \<mapsto> ''test-key'', ''GEMINI_API_KEY'' \<mapsto> ''other''] ''LLM_PROVIDER'' = None
   \<and> select_provider None [''OPENAI_API_KEY'' \<mapsto> ''test-key'', ''GEMINI_API_KEY'' \<mapsto> ''other'']
       = ''openai''
   \<and> (\<exists>a. init None [''OPENAI_API_KEY'' \<mapsto> ''test-key'', ''GEMINI_API_KEY'' \<mapsto> ''other''] =
            (Inr a, [Set_openai_api_key ''test-key'']) \<and> llm_provider a = ''openai'')
   \<and> [''GEMINI_API_KEY'' \<mapsto> ''other''] ''LLM_PROVIDER'' = None
   \<and> init None [''GEMINI_API_KEY'' \<mapsto> ''other''] =
       (Inl (ValueError ''OPENAI_API_KEY not found in environment variables''), [])"
proof -
  have h1: "[''OPENAI_API_KEY'' \<mapsto> ''test-key'', ''GEMINI_API_KEY'' \<mapsto> ''other'']
              ''LLM_PROVIDER'' = None"
    by simp
  have h2: "[''GEMINI_API_KEY'' \<mapsto> ''other''] ''LLM_PROVIDER'' = None"
    by simp
  show ?thesis
    using h1 h2
      init_defaults_to_openai
        [of "[''OPENAI_API_KEY'' \<mapsto> ''test-key'', ''GEMINI_API_KEY'' \<mapsto> ''other'']"]
      init_defaults_to_openai [of "[''GEMINI_API_KEY'' \<mapsto> ''other'']"]
    by auto
qed

text \<open>The assistant of the concrete inputs is the one the tests' environment constructs.\<close>

lemma test_assistant_constructed:
  "init (Some ''openai'') test_env = (Inr test_assistant, [Set_openai_api_key ''test-key''])"
  by (simp add: init_def initialize_llm_def select_provider_def getenv_def test_env_def
      test_assistant_def)

section \<open>Schema describer\<close>

lemmas model_eval =
  get_databricks_connection_def full_table_name_def describe_table_def
  get_table_schema_def generate_sql_prompt_def natural_language_to_sql_def
  generate_sql_with_openai_def generate_sql_with_gemini_def
  test_assistant_def cached_assistant_def empty_warehouse_def
  silent_failure_warehouse_def answering_def

lemma describe_table_state:
  "describe_table db (a, sent) = (r, (a1, sent1)) \<Longrightarrow>
     (sent1 = sent \<or> sent1 = sent @ [''DESCRIBE TABLE '' @ full_table_name a])
     \<and> (case r of Inl e \<Rightarrow> a1 = a | Inr schema \<Rightarrow> a1 = a\<lparr>table_schema := Some schema\<rparr>)"
  by (auto simp: describe_table_def Let_def split: sum.splits)

lemma get_table_schema_full_table_name:
  "get_table_schema db st = (r, st1) \<Longrightarrow> full_table_name (fst st1) = full_table_name (fst st)"
  by (cases st; cases st1)
     (auto simp: get_table_schema_def full_table_name_def dest!: describe_table_state
        split: if_splits sum.splits)

text \<open>
  The cache works for every schema text that is not empty: after a call that returned
  such a text, a further call returns it again and leaves the assistant and the log of
  statements as they are.
\<close>

lemma get_table_schema_memo:
  assumes "get_table_schema db st = (Inr schema, st1)" and "schema \<noteq> []"
  shows "get_table_schema db st1 = (Inr schema, st1)"
proof (cases "truthy (table_schema (fst st))")
  case True
  with assms show ?thesis by (auto simp: get_table_schema_def)
next
  case False
  with assms have "describe_table db st = (Inr schema, st1)"
    by (simp add: get_table_schema_def)
  then have "table_schema (fst st1) = Some schema"
    by (cases st; cases st1) (auto dest!: describe_table_state)
  with assms(2) show ?thesis by (simp add: get_table_schema_def)
qed

text \<open>
  \<^bold>\<open>C4.\<close> Two calls of \<open>get_table_schema\<close> are meant to send one \<open>DESCRIBE TABLE\<close>,
  whatever text the first call produced. When the table has no column the first call
  stores the empty text, which the test \<open>if self._table_schema:\<close> takes for an empty
  cache: the second call sends the statement again.
\<close>

theorem get_table_schema_empty_schema_describes_twice:
  "get_table_schema empty_warehouse (test_assistant, []) =
     (Inr [], (test_assistant\<lparr>table_schema := Some []\<rparr>,
               [''DESCRIBE TABLE test_catalog.test_schema.test_table'']))
   \<and> get_table_schema empty_warehouse
       (test_assistant\<lparr>table_schema := Some []\<rparr>,
        [''DESCRIBE TABLE test_catalog.test_schema.test_table'']) =
     (Inr [], (test_assistant\<lparr>table_schema := Some []\<rparr>,
               [''DESCRIBE TABLE test_catalog.test_schema.test_table'',
                ''DESCRIBE TABLE test_catalog.test_schema.test_table'']))"
  by (simp add: model_eval)

section \<open>Prompt builder\<close>

lemma sublist_here: "sublist x (x @ ys)"
  by (rule prefix_imp_sublist) simp

lemma sublist_skip: "sublist x ys \<Longrightarrow> sublist x (a @ ys)"
  by (auto simp: sublist_def) (metis append.assoc)

lemma prompt_text_contains:
  "str_in full_name (prompt_text full_name schema question)"
  "str_in schema (prompt_text full_name schema question)"
  "str_in question (prompt_text full_name schema question)"
  unfolding str_in_sublist prompt_text_def
  by (rule sublist_here | rule sublist_skip)+

text \<open>
  \<^bold>\<open>C5.\<close> The prompt builder adds nothing of its own to the schema fetch that
  \<open>get_table_schema\<close> performs for it. The assistant and the log of statements after
  \<open>generate_sql_prompt\<close> are those after \<open>get_table_schema\<close>: the builder sends nothing
  and changes nothing itself. It raises only what \<open>get_table_schema\<close> raised, and from
  a schema text it always returns the template filled with the question, the table
  identifier and that schema text, and with nothing else. With a schema text in the
  cache that is not empty there is no fetch either: it returns the filled template,
  sends nothing and leaves the assistant as it is, for every warehouse and question.
\<close>

theorem generate_sql_prompt_pure:
  "snd (generate_sql_prompt db st question) = snd (get_table_schema db st)
   \<and> fst (generate_sql_prompt db st question) =
       (case fst (get_table_schema db st) of
          Inl e \<Rightarrow> Inl e
        | Inr schema \<Rightarrow> Inr (prompt_text (full_table_name (fst st)) schema question))
   \<and> (truthy (table_schema a) \<longrightarrow>
        generate_sql_prompt db (a, sent) question =
          (Inr (prompt_text (full_table_name a) (fmt (table_schema a)) question), (a, sent)))"
proof -
  obtain r st1 where g: "get_table_schema db st = (r, st1)"
    by (cases "get_table_schema db st")
  have n: "full_table_name (fst st1) = full_table_name (fst st)"
    using g by (rule get_table_schema_full_table_name)
  have "snd (generate_sql_prompt db st question) = snd (get_table_schema db st)"
    by (cases r) (simp_all add: generate_sql_prompt_def g)
  moreover have "fst (generate_sql_prompt db st question) =
       (case fst (get_table_schema db st) of
          Inl e \<Rightarrow> Inl e
        | Inr schema \<Rightarrow> Inr (prompt_text (full_table_name (fst st)) schema question))"
    by (cases r) (simp_all add: generate_sql_prompt_def g n)
  moreover have "generate_sql_prompt db (a, sent) question =
          (Inr (prompt_text (full_table_name a) (fmt (table_schema a)) question), (a, sent))"
    if "truthy (table_schema a)"
    using that by (simp add: generate_sql_prompt_def get_table_schema_def)
  ultimately show ?thesis by blast
qed

theorem generate_sql_prompt_pure_witness:
  "truthy (table_schema cached_assistant)
   \<and> generate_sql_prompt silent_failure_warehouse (cached_assistant, []) ''Show me all records'' =
       (Inr (prompt_text ''test_catalog.test_schema.test_table'' ''  - col1: string''
               ''Show me all records''), (cached_assistant, []))
   \<and> get_table_schema one_column_warehouse (test_assistant, []) =
       (Inr ''  - col1: string'',
        (cached_assistant, [''DESCRIBE TABLE test_catalog.test_schema.test_table'']))
   \<and> generate_sql_prompt one_column_warehouse (test_assistant, []) ''Show me all records'' =
       (Inr (prompt_text ''test_catalog.test_schema.test_table'' ''  - col1: string''
               ''Show me all records''),
        (cached_assistant, [''DESCRIBE TABLE test_catalog.test_schema.test_table'']))"
proof -
  have h: "truthy (table_schema cached_assistant)"
    by (simp add: cached_assistant_def)
  have n: "full_table_name cached_assistant = ''test_catalog.test_schema.test_table''"
    "full_table_name test_assistant = ''test_catalog.test_schema.test_table''"
    by (simp_all add: full_table_name_def cached_assistant_def test_assistant_def)
  have f: "fmt (table_schema cached_assistant) = ''  - col1: string''"
    by (simp add: cached_assistant_def)
  have g: "get_table_schema one_column_warehouse (test_assistant, []) =
       (Inr ''  - col1: string'',
        (cached_assistant, [''DESCRIBE TABLE test_catalog.test_schema.test_table'']))"
    by (simp add: model_eval one_column_warehouse_def nl_def Let_def)
  note hit = generate_sql_prompt_pure
    [of silent_failure_warehouse "(cached_assistant, [])" "''Show me all records''"
        cached_assistant "[]"]
  note miss = generate_sql_prompt_pure
    [of one_column_warehouse "(test_assistant, [])" "''Show me all records''"
        cached_assistant "[]"]
  have w1: "generate_sql_prompt silent_failure_warehouse (cached_assistant, [])
              ''Show me all records'' =
       (Inr (prompt_text ''test_catalog.test_schema.test_table'' ''  - col1: string''
               ''Show me all records''), (cached_assistant, []))"
    using h hit by (simp only: n f)
  have s2: "snd (generate_sql_prompt one_column_warehouse (test_assistant, [])
                   ''Show me all records'') =
       (cached_assistant, [''DESCRIBE TABLE test_catalog.test_schema.test_table''])"
    using miss by (simp only: g snd_conv)
  have f2: "fst (generate_sql_prompt one_column_warehouse (test_assistant, [])
                   ''Show me all records'') =
       Inr (prompt_text ''test_catalog.test_schema.test_table'' ''  - col1: string''
              ''Show me all records'')"
    using miss by (simp only: g n fst_conv sum.case)
  have w2: "generate_sql_prompt one_column_warehouse (test_assistant, [])
              ''Show me all records'' =
       (Inr (prompt_text ''test_catalog.test_schema.test_table'' ''  - col1: string''
               ''Show me all records''),
        (cached_assistant, [''DESCRIBE TABLE test_catalog.test_schema.test_table'']))"
    using s2 f2 by (metis prod.collapse)
  show ?thesis
    using h g w1 w2 by (simp only: simp_thms)
qed

text \<open>
  What reaches the caller on a cache miss is the fetch of \<open>get_table_schema\<close>: its
  exception when the connection settings are incomplete, its statement and its cache
  update when the warehouse answers.
\<close>

lemma generate_sql_prompt_fetch_passes_through:
  "fst (generate_sql_prompt empty_warehouse (test_assistant\<lparr>server_hostname := None\<rparr>, [])
          ''Show me all records'') =
     Inl (ValueError ''Databricks configuration incomplete. Check environment variables.'')
   \<and> snd (generate_sql_prompt empty_warehouse (test_assistant, []) ''Show me all records'') =
       (test_assistant\<lparr>table_schema := Some []\<rparr>,
        [''DESCRIBE TABLE test_catalog.test_schema.test_table''])"
  by (simp add: model_eval)

text \<open>
  \<^bold>\<open>C6.\<close> Every prompt that \<open>generate_sql_prompt\<close> returns contains the fully-qualified
  table name, the question and the schema text that \<open>get_table_schema\<close> returned, each
  as a substring, for every question (empty or not).
\<close>

theorem generate_sql_prompt_contains:
  assumes "generate_sql_prompt db st question = (Inr prompt, st1)"
  shows "str_in (full_table_name (fst st)) prompt
         \<and> str_in question prompt
         \<and> (\<exists>schema. get_table_schema db st = (Inr schema, st1) \<and> str_in schema prompt)"
proof -
  from assms obtain schema where g: "get_table_schema db st = (Inr schema, st1)"
    and p: "prompt = prompt_text (full_table_name (fst st1)) schema question"
    by (auto simp: generate_sql_prompt_def split: prod.splits sum.splits)
  have "full_table_name (fst st1) = full_table_name (fst st)"
    using g by (rule get_table_schema_full_table_name)
  with g p show ?thesis by (auto simp: prompt_text_contains)
qed

theorem generate_sql_prompt_contains_witness:
  "generate_sql_prompt empty_warehouse (cached_assistant, []) ''Show me all records'' =
     (Inr (prompt_text ''test_catalog.test_schema.test_table'' ''  - col1: string''
             ''Show me all records''), (cached_assistant, []))
   \<and> str_in ''test_catalog.test_schema.test_table''
       (prompt_text ''test_catalog.test_schema.test_table'' ''  - col1: string''
          ''Show me all records'')
   \<and> str_in ''Show me all records''
       (prompt_text ''test_catalog.test_schema.test_table'' ''  - col1: string''
          ''Show me all records'')
   \<and> str_in ''  - col1: string''
       (prompt_text ''test_catalog.test_schema.test_table'' ''  - col1: string''
          ''Show me all records'')"
proof -
  have h: "generate_sql_prompt empty_warehouse (cached_assistant, []) ''Show me all records'' =
     (Inr (prompt_text ''test_catalog.test_schema.test_table'' ''  - col1: string''
             ''Show me all records''), (cached_assistant, []))"
    by (simp add: model_eval)
  have n: "full_table_name cached_assistant = ''test_catalog.test_schema.test_table''"
    by (simp add: full_table_name_def cached_assistant_def test_assistant_def)
  have g: "get_table_schema empty_warehouse (cached_assistant, []) =
             (Inr ''  - col1: string'', (cached_assistant, []))"
    by (simp add: get_table_schema_def cached_assistant_def)
  show ?thesis
    using h generate_sql_prompt_contains [OF h] by (simp add: n g)
qed

section \<open>Orchestrator\<close>

lemma natural_language_to_sql_answering:
  "natural_language_to_sql db (answering content) (cached_assistant, sent) question =
     (Inr (clean_response content), (cached_assistant, sent))"
  by (simp add: model_eval)

text \<open>Once the SQL text has been generated, \<open>query\<close> returns an envelope: nothing propagates.\<close>

lemma query_returns:
  "natural_language_to_sql db ai st question = (Inr sql, st1) \<Longrightarrow>
     \<exists>envelope st2. query db ai st question exec = (Inr envelope, st2)"
  by (auto simp: query_def Let_def split: prod.splits sum.splits)




text \<open>
  \<^bold>\<open>C9.\<close> An envelope returned by \<open>query\<close> holds the question and the generated SQL
  under its first two keys. Without execution it holds nothing else. With execution
  it holds either the rows and the status \<open>success\<close>, or the status \<open>error\<close> and an
  error text, and no other key.
\<close>

theorem query_envelope_shape:
  assumes "query db ai st question exec = (Inr envelope, st2)"
  shows "\<exists>sql st1. natural_language_to_sql db ai st question = (Inr sql, st1)
           \<and> (if \<not> exec
               then envelope =
                      [(''natural_language_query'', Str question), (''sql_query'', Str sql)]
               else (\<exists>results.
                       envelope =
                         [(''natural_language_query'', Str question), (''sql_query'', Str sql),
                          (''results'', Rows results), (''status'', Str ''success'')])
                  \<or> (\<exists>message.
                       envelope =
                         [(''natural_language_query'', Str question), (''sql_query'', Str sql),
                          (''status'', Str ''error''), (''error'', Str message)]))"
  using assms
  by (auto simp: query_def Let_def split: prod.splits sum.splits if_splits)

theorem query_envelope_shape_witness:
  "query empty_warehouse (answering ''SELECT 1'') (cached_assistant, []) ''count rows'' True =
     (Inr [(''natural_language_query'', Str ''count rows''), (''sql_query'', Str ''SELECT 1''),
           (''results'', Rows []), (''status'', Str ''success'')],
      (cached_assistant, [''SELECT 1'']))
   \<and> query empty_warehouse (answering ''DROP TABLE x'') (cached_assistant, []) ''count rows'' False =
       (Inr [(''natural_language_query'', Str ''count rows''),
             (''sql_query'', Str ''DROP TABLE x'')], (cached_assistant, []))
   \<and> (\<exists>sql st1.
         natural_language_to_sql empty_warehouse (answering ''SELECT 1'') (cached_assistant, [])
           ''count rows'' = (Inr sql, st1)
         \<and> sql = ''SELECT 1'')"
proof -
  have c: "clean_response ''SELECT 1'' = ''SELECT 1''"
    "clean_response ''DROP TABLE x'' = ''DROP TABLE x''"
    by (simp_all add: clean_response_def strip_fences_def string_eval)
  have v: "validate_sql_query ''SELECT 1'' = Inr True"
    by (simp add: validate_sql_query_def dangerous_operations_def string_eval)
  have x: "execute_sql empty_warehouse (cached_assistant, []) ''SELECT 1'' =
             (Inr [], (cached_assistant, [''SELECT 1'']))"
    by (simp add: execute_sql_def v get_databricks_connection_def empty_warehouse_def
        cached_assistant_def test_assistant_def)
  have h1: "query empty_warehouse (answering ''SELECT 1'') (cached_assistant, [])
              ''count rows'' True =
     (Inr [(''natural_language_query'', Str ''count rows''), (''sql_query'', Str ''SELECT 1''),
           (''results'', Rows []), (''status'', Str ''success'')],
      (cached_assistant, [''SELECT 1'']))"
    by (simp add: query_def natural_language_to_sql_answering c x)
  have h2: "query empty_warehouse (answering ''DROP TABLE x'') (cached_assistant, [])
              ''count rows'' False =
       (Inr [(''natural_language_query'', Str ''count rows''),
             (''sql_query'', Str ''DROP TABLE x'')], (cached_assistant, []))"
    by (simp add: query_def natural_language_to_sql_answering c)
  show ?thesis
    using h1 h2 query_envelope_shape [OF h1] query_envelope_shape [OF h2]
    by (auto simp: natural_language_to_sql_answering c)
qed

end
